theory Spec2Isabelle
  imports Complex_Main
begin

section \<open>Vectors and the GLSL built-ins used by the shaders\<close>

text \<open>
  The shaders of \<^verbatim>\<open>fluffy.js\<close> compute on GLSL floats. The model computes on the
  reals: every statement below is a statement of exact real arithmetic.
\<close>

datatype vec2 = Vec2 (v2x: real) (v2y: real)

datatype vec3 = Vec3 (vx: real) (vy: real) (vz: real)

datatype vec4 = Vec4 (v4x: real) (v4y: real) (v4z: real) (v4w: real)

definition vec3_add :: "vec3 \<Rightarrow> vec3 \<Rightarrow> vec3" where
  "vec3_add a b = Vec3 (vx a + vx b) (vy a + vy b) (vz a + vz b)"

definition vec3_scale :: "vec3 \<Rightarrow> real \<Rightarrow> vec3" where
  "vec3_scale a k = Vec3 (vx a * k) (vy a * k) (vz a * k)"

definition length2 :: "real \<Rightarrow> real \<Rightarrow> real" where
  \<comment> \<open>GLSL \<^verbatim>\<open>length(vec2(a, b))\<close>\<close>
  "length2 a b = sqrt (a\<^sup>2 + b\<^sup>2)"

definition glsl_atan :: "real \<Rightarrow> real \<Rightarrow> real \<Rightarrow> real" where
  \<comment> \<open>GLSL \<^verbatim>\<open>atan(y, x)\<close>: the angle of the point \<open>(x, y)\<close>, in \<open>(-pi, pi]\<close>. GLSL leaves
      the result undefined when both arguments are zero; \<open>u\<close> is the value returned there.\<close>
  "glsl_atan u y x =
     (if 0 < x then arctan (y / x)
      else if x < 0 then (if 0 \<le> y then arctan (y / x) + pi else arctan (y / x) - pi)
      else if 0 < y then pi / 2
      else if y < 0 then - (pi / 2)
      else u)"

definition mix3 :: "vec3 \<Rightarrow> vec3 \<Rightarrow> real \<Rightarrow> vec3" where
  \<comment> \<open>GLSL \<^verbatim>\<open>mix(a, b, t)\<close> = \<open>a * (1 - t) + b * t\<close>, componentwise\<close>
  "mix3 a b t = vec3_add (vec3_scale a (1 - t)) (vec3_scale b t)"

section \<open>The vertex shader\<close>

text \<open>
  The simplex noise functions come from the package \<^verbatim>\<open>glsl-noise\<close>, which is not part
  of the sources: the 4D noise is the parameter \<open>noise\<close>, the 3D noise of the fragment
  shader the parameter \<open>noise3\<close>.
\<close>

record vertex =
  position :: vec3
  normal :: vec3
  uv :: vec2

text \<open>The uniforms of the shader material, as \<^verbatim>\<open>createMesh\<close> lists them.\<close>

record uniforms =
  u_time :: real
  u_colorA :: vec3
  u_colorB :: vec3
  u_impulse :: vec2
  u_spikeCount :: real
  u_spikeLength :: real
  u_sceneRotationY :: real

definition uvNoise_of :: "(vec4 \<Rightarrow> real) \<Rightarrow> uniforms \<Rightarrow> vertex \<Rightarrow> real" where
  "uvNoise_of noise U v =
     noise (Vec4 (vx (position v) * u_spikeCount U) (vy (position v) * u_spikeCount U)
                 (vz (position v) * u_spikeCount U) 10.0)
       * u_spikeLength U + (u_spikeLength U - 1.0)"

text \<open>The locals of the branch \<^verbatim>\<open>if (uvNoise > 0.0)\<close>, computed from the extruded \<open>pos\<close>.\<close>

record spike_locals =
  intensity :: real
  angleH :: real
  hLength :: real
  xpos :: real
  zPos :: real
  zPos2 :: real
  angleV :: real
  vLength :: real
  yPos :: real

definition spike :: "real \<Rightarrow> uniforms \<Rightarrow> real \<Rightarrow> vec3 \<Rightarrow> spike_locals" where
  "spike u U uvNoise pos =
     (let intensity = uvNoise * 5.0;
          impulseX = v2x (u_impulse U);
          angleH = glsl_atan u (vz pos) (vx pos);
          hLength = length2 (vx pos) (vz pos);
          xpos = cos (angleH + impulseX * intensity) * hLength;
          zPos = sin (angleH + impulseX * intensity) * hLength;
          zPos2 = sin (angleH + impulseX * intensity - u_sceneRotationY U) * hLength;
          angleV = glsl_atan u zPos2 (vy pos) - v2y (u_impulse U) * intensity;
          vLength = length2 (vy pos) zPos2;
          yPos = cos angleV * vLength
      in \<lparr> intensity = intensity, angleH = angleH, hLength = hLength, xpos = xpos,
           zPos = zPos, zPos2 = zPos2, angleV = angleV, vLength = vLength, yPos = yPos \<rparr>)"

definition extruded :: "(vec4 \<Rightarrow> real) \<Rightarrow> uniforms \<Rightarrow> vertex \<Rightarrow> vec3" where
  \<comment> \<open>\<^verbatim>\<open>pos\<close> after \<^verbatim>\<open>pos += normal * noiseLength\<close>\<close>
  "extruded noise U v =
     (let noiseLength = uvNoise_of noise U v * 0.39
      in vec3_add (position v) (vec3_scale (normal v) noiseLength))"

definition vertexShader :: "real \<Rightarrow> (vec4 \<Rightarrow> real) \<Rightarrow> uniforms \<Rightarrow> vertex \<Rightarrow> vec3" where
  \<comment> \<open>The displaced \<^verbatim>\<open>pos\<close> that \<^verbatim>\<open>main\<close> hands to the projection
      \<^verbatim>\<open>projectionMatrix * modelViewMatrix * vec4(pos, 1.0)\<close>.\<close>
  "vertexShader u noise U v =
     (let uvNoise = uvNoise_of noise U v;
          pos = extruded noise U v
      in if uvNoise > 0.0
         then (let l = spike u U uvNoise pos in Vec3 (xpos l) (yPos l) (zPos l))
         else pos)"

section \<open>Polar form\<close>

lemma length2_pos: "0 < x \<Longrightarrow> length2 x y = x * sqrt (1 + (y / x)\<^sup>2)"
proof -
  assume x: "0 < x"
  have "x\<^sup>2 + y\<^sup>2 = x\<^sup>2 * (1 + (y / x)\<^sup>2)"
    using x by (simp add: field_simps power2_eq_square)
  then show ?thesis
    using x by (simp add: length2_def real_sqrt_mult)
qed

lemma length2_neg: "x < 0 \<Longrightarrow> length2 x y = - x * sqrt (1 + (y / x)\<^sup>2)"
proof -
  assume x: "x < 0"
  have "x\<^sup>2 + y\<^sup>2 = x\<^sup>2 * (1 + (y / x)\<^sup>2)"
    using x by (simp add: field_simps power2_eq_square)
  then show ?thesis
    using x by (simp add: length2_def real_sqrt_mult)
qed

lemma sqrt_one_plus_pos: "0 < sqrt (1 + (t::real)\<^sup>2)"
  by (simp add: add_pos_nonneg)

lemma cos_atan_length: "cos (glsl_atan u y x) * length2 x y = x"
proof -
  consider "0 < x" | "x < 0" | "x = 0" "0 < y" | "x = 0" "y < 0" | "x = 0" "y = 0"
    by linarith
  then show ?thesis
  proof cases
    case 1
    then show ?thesis
      using sqrt_one_plus_pos [of "y / x"]
      by (simp add: glsl_atan_def length2_pos cos_arctan)
  next
    case 2
    then show ?thesis
      using sqrt_one_plus_pos [of "y / x"]
      by (simp add: glsl_atan_def length2_neg cos_arctan)
  next
    case 3
    then show ?thesis by (simp add: glsl_atan_def)
  next
    case 4
    then show ?thesis by (simp add: glsl_atan_def)
  next
    case 5
    then show ?thesis by (simp add: glsl_atan_def length2_def)
  qed
qed

lemma sin_atan_length: "sin (glsl_atan u y x) * length2 x y = y"
proof -
  consider "0 < x" | "x < 0" | "x = 0" "0 < y" | "x = 0" "y < 0" | "x = 0" "y = 0"
    by linarith
  then show ?thesis
  proof cases
    case 1
    then show ?thesis
      using sqrt_one_plus_pos [of "y / x"]
      by (simp add: glsl_atan_def length2_pos sin_arctan)
  next
    case 2
    then show ?thesis
      using sqrt_one_plus_pos [of "y / x"]
      by (simp add: glsl_atan_def length2_neg sin_arctan)
  next
    case 3
    then show ?thesis by (simp add: glsl_atan_def length2_def)
  next
    case 4
    then show ?thesis by (simp add: glsl_atan_def length2_def)
  next
    case 5
    then show ?thesis by (simp add: glsl_atan_def length2_def)
  qed
qed

section \<open>Properties of the displacement\<close>

definition constant_noise :: "real \<Rightarrow> vec4 \<Rightarrow> real" where
  \<comment> \<open>a noise field with the same value everywhere, for concrete evaluations\<close>
  "constant_noise c p = c"

definition plain_uniforms :: "vec2 \<Rightarrow> real \<Rightarrow> uniforms" where
  \<comment> \<open>spike count and spike length \<open>1\<close>, white colours, a given impulse and scene rotation\<close>
  "plain_uniforms imp r =
     \<lparr>u_time = 0, u_colorA = Vec3 1 1 1, u_colorB = Vec3 1 1 1, u_impulse = imp,
      u_spikeCount = 1, u_spikeLength = 1, u_sceneRotationY = r\<rparr>"

definition pole_vertex :: vertex where
  \<comment> \<open>the top of the sphere of radius \<open>0.8\<close>\<close>
  "pole_vertex = \<lparr>position = Vec3 0 0.8 0, normal = Vec3 0 1 0, uv = Vec2 0 1\<rparr>"

definition seam_vertex :: vertex where
  \<comment> \<open>a point of that sphere in the plane \<open>z = 0\<close>, with its unit normal\<close>
  "seam_vertex = \<lparr>position = Vec3 0.48 0.64 0, normal = Vec3 0.6 0.8 0, uv = Vec2 0 0.8\<rparr>"

lemma glsl_atan_x_axis: "0 < x \<Longrightarrow> glsl_atan u 0 x = 0"
  by (simp add: glsl_atan_def)

lemma length2_x_axis: "0 \<le> x \<Longrightarrow> length2 x 0 = x"
  by (simp add: length2_def)

lemma extruded_seam:
  "extruded (constant_noise 1) (plain_uniforms imp r) seam_vertex = Vec3 0.714 0.952 0"
  by (simp add: extruded_def uvNoise_of_def constant_noise_def plain_uniforms_def
      seam_vertex_def vec3_add_def vec3_scale_def)

lemma uvNoise_seam: "uvNoise_of (constant_noise 1) (plain_uniforms imp r) seam_vertex = 1"
  by (simp add: uvNoise_of_def constant_noise_def plain_uniforms_def)

lemma vertexShader_flat:
  "uvNoise_of noise U v \<le> 0 \<Longrightarrow> vertexShader u noise U v = extruded noise U v"
  by (simp add: vertexShader_def Let_def)

lemma uvNoise_of_update [simp]:
  "uvNoise_of noise (U\<lparr>u_impulse := i, u_sceneRotationY := r\<rparr>) v = uvNoise_of noise U v"
  by (simp add: uvNoise_of_def)

lemma extruded_update [simp]:
  "extruded noise (U\<lparr>u_impulse := i, u_sceneRotationY := r\<rparr>) v = extruded noise U v"
  by (simp add: extruded_def)

lemma spike_zero_impulse:
  "u_impulse U = Vec2 0 0 \<Longrightarrow>
   Vec3 (xpos (spike u U n pos)) (yPos (spike u U n pos)) (zPos (spike u U n pos)) = pos"
  by (cases pos) (simp add: spike_def Let_def cos_atan_length sin_atan_length)

lemma vertexShader_zero_impulse:
  "u_impulse U = Vec2 0 0 \<Longrightarrow> vertexShader u noise U v = extruded noise U v"
  by (simp add: vertexShader_def Let_def spike_zero_impulse)

text \<open>
  C2. A vertex whose \<open>uvNoise\<close> is at most zero is only extruded along its normal: the
  output is \<open>position + normal * (uvNoise * 0.39)\<close>, and it is the same for every
  impulse and every scene rotation.
\<close>

theorem C2_flat_vertex_only_extruded:
  "uvNoise_of noise U v \<le> 0 \<Longrightarrow>
   vertexShader u noise U v
     = vec3_add (position v) (vec3_scale (normal v) (uvNoise_of noise U v * 0.39))
   \<and> vertexShader u noise (U\<lparr>u_impulse := i, u_sceneRotationY := r\<rparr>) v
     = vec3_add (position v) (vec3_scale (normal v) (uvNoise_of noise U v * 0.39))"
  by (simp add: vertexShader_flat) (simp add: extruded_def)

theorem C2_flat_vertex_witness:
  "uvNoise_of (constant_noise (- 1)) (plain_uniforms (Vec2 1 1) 1) pole_vertex \<le> 0
   \<and> vertexShader 0 (constant_noise (- 1)) (plain_uniforms (Vec2 1 1) 1) pole_vertex
       = Vec3 0 0.41 0"
  using C2_flat_vertex_only_extruded [where noise = "constant_noise (- 1)"
      and U = "plain_uniforms (Vec2 1 1) 1" and v = pole_vertex
      and u = 0 and i = "Vec2 1 1" and r = 1]
  by (simp add: uvNoise_of_def constant_noise_def plain_uniforms_def pole_vertex_def
      vec3_add_def vec3_scale_def)

text \<open>
  C3. With the impulse \<open>(0, 0)\<close> the displaced position is the same for any two values
  of the scene rotation (and whatever \<^verbatim>\<open>atan\<close> returns at the origin), for every
  vertex, protruding or not.
\<close>

theorem C3_zero_impulse_ignores_scene_rotation:
  "vertexShader u1 noise (U\<lparr>u_impulse := Vec2 0 0, u_sceneRotationY := r1\<rparr>) v
   = vertexShader u2 noise (U\<lparr>u_impulse := Vec2 0 0, u_sceneRotationY := r2\<rparr>) v"
  by (simp add: vertexShader_zero_impulse)

text \<open>
  C1, as stated, fails: the shader recomputes only \<open>y\<close> from the rotated vertical polar
  form; the final \<open>z\<close> is \<^verbatim>\<open>zPos\<close> of the horizontal rotation. At the vertex
  \<open>(0.48, 0.64, 0)\<close> of the sphere, with noise \<open>1\<close>, spike length \<open>1\<close>, zero impulse and a
  scene rotation of \<open>- pi / 2\<close>, the vertical polar form gives
  \<open>sin angleV * vLength = 0.714\<close>, and the displaced vertex has \<open>z = 0\<close>.
\<close>

theorem C1_z_not_from_vertical_form:
  "0 < uvNoise_of (constant_noise 1) (plain_uniforms (Vec2 0 0) (- (pi / 2))) seam_vertex
   \<and> sin (angleV (spike 0 (plain_uniforms (Vec2 0 0) (- (pi / 2)))
        (uvNoise_of (constant_noise 1) (plain_uniforms (Vec2 0 0) (- (pi / 2))) seam_vertex)
        (extruded (constant_noise 1) (plain_uniforms (Vec2 0 0) (- (pi / 2))) seam_vertex)))
      * vLength (spike 0 (plain_uniforms (Vec2 0 0) (- (pi / 2)))
        (uvNoise_of (constant_noise 1) (plain_uniforms (Vec2 0 0) (- (pi / 2))) seam_vertex)
        (extruded (constant_noise 1) (plain_uniforms (Vec2 0 0) (- (pi / 2))) seam_vertex))
      = 0.714
   \<and> vz (vertexShader 0 (constant_noise 1) (plain_uniforms (Vec2 0 0) (- (pi / 2)))
        seam_vertex) = 0"
proof -
  have "sin (glsl_atan 0 (357 / 500) (119 / 125)) * length2 (119 / 125) (357 / 500)
        = (357 / 500 :: real)"
    by (rule sin_atan_length)
  then show ?thesis
    by (simp add: vertexShader_def extruded_seam uvNoise_seam spike_def Let_def
        glsl_atan_x_axis length2_x_axis)
       (simp add: plain_uniforms_def)
qed

text \<open>
  C1, amended. For a vertex with \<open>uvNoise > 0\<close>, with \<open>pos\<close> the extruded position and
  \<open>intensity = uvNoise * 5\<close>: the horizontal angle \<open>angleH\<close> is rotated by
  \<open>impulse.x * intensity\<close>, the corrected z-coordinate \<open>zPos2\<close> subtracts the scene
  rotation from that angle, the vertical polar form \<open>(angleV, vLength)\<close> is taken from
  \<open>(pos.y, zPos2)\<close> with \<open>angleV\<close> rotated by \<open>- impulse.y * intensity\<close>, and the displaced
  vertex has \<open>y = cos angleV * vLength\<close> from the vertical form, while its \<open>x\<close> and \<open>z\<close>
  are those of the horizontal rotation.
\<close>

theorem C1_swirl_of_protruding_vertex:
  "0 < uvNoise_of noise U v \<Longrightarrow>
   (let pos = extruded noise U v;
        i = uvNoise_of noise U v * 5;
        aH = glsl_atan u (vz pos) (vx pos) + v2x (u_impulse U) * i;
        h = length2 (vx pos) (vz pos);
        z2 = sin (aH - u_sceneRotationY U) * h;
        aV = glsl_atan u z2 (vy pos) - v2y (u_impulse U) * i;
        vL = length2 (vy pos) z2
    in vertexShader u noise U v = Vec3 (cos aH * h) (cos aV * vL) (sin aH * h))"
  by (simp add: vertexShader_def spike_def Let_def)

theorem C1_swirl_witness:
  "0 < uvNoise_of (constant_noise 1) (plain_uniforms (Vec2 0 0) (- (pi / 2))) seam_vertex
   \<and> vertexShader 0 (constant_noise 1) (plain_uniforms (Vec2 0 0) (- (pi / 2))) seam_vertex
       = Vec3 0.714 0.952 0"
proof -
  have "cos (glsl_atan 0 (357 / 500) (119 / 125)) * length2 (119 / 125) (357 / 500)
        = (119 / 125 :: real)"
    by (rule cos_atan_length)
  then show ?thesis
    using C1_swirl_of_protruding_vertex [where noise = "constant_noise 1"
        and U = "plain_uniforms (Vec2 0 0) (- (pi / 2))" and v = seam_vertex and u = 0]
    by (simp add: extruded_seam uvNoise_seam Let_def glsl_atan_x_axis length2_x_axis)
       (simp add: plain_uniforms_def)
qed

section \<open>The fragment shader\<close>

definition fragmentShader :: "(vec3 \<Rightarrow> real) \<Rightarrow> uniforms \<Rightarrow> vec2 \<Rightarrow> real \<Rightarrow> vec4 option" where
  \<comment> \<open>\<^verbatim>\<open>gl_FragColor\<close> from the varyings \<^verbatim>\<open>vUv\<close> and \<^verbatim>\<open>uvNoise\<close>. GLSL leaves a division by
      zero undefined: \<open>None\<close>.\<close>
  "fragmentShader noise3 U vUv uvNoise =
     (if u_spikeLength U = 0 then None
      else
        let sine = sin (v2x vUv * 3.14);
            n = noise3 (Vec3 (v2x vUv * 6.0) (v2y vUv * 6.0) (u_time U * 0.02)) * 0.5 + 0.5;
            darkness = uvNoise / u_spikeLength U + 1.0;
            col = mix3 (u_colorA U) (u_colorB U) n;
            col = vec3_scale (vec3_scale col (sine * 0.6 + 0.4)) darkness
        in Some (Vec4 (vx col) (vy col) (vz col) 1.0))"

definition shading_formula :: "real \<Rightarrow> (vec3 \<Rightarrow> real) \<Rightarrow> uniforms \<Rightarrow> vec2 \<Rightarrow> real \<Rightarrow> vec4" where
  \<comment> \<open>The Shading Model in the words of the specification, with \<open>k\<close> for the factor of
      \<open>uv.x\<close> inside the sine (the specification has \<open>k = pi\<close>).\<close>
  "shading_formula k noise3 U vUv uvNoise =
     (let n = noise3 (Vec3 (v2x vUv * 6.0) (v2y vUv * 6.0) (u_time U * 0.02)) * 0.5 + 0.5;
          color = mix3 (u_colorA U) (u_colorB U) n;
          sine = sin (v2x vUv * k);
          darkness = uvNoise / u_spikeLength U + 1.0;
          f = (sine * 0.6 + 0.4) * darkness
      in Vec4 (vx color * f) (vy color * f) (vz color * f) 1)"

definition constant_noise3 :: "real \<Rightarrow> vec3 \<Rightarrow> real" where
  "constant_noise3 c p = c"

subsection \<open>A lower bound of \<open>pi\<close>\<close>

lemma arctan_le_self: "0 \<le> x \<Longrightarrow> arctan x \<le> x"
proof -
  assume x: "0 \<le> x"
  have "(\<lambda>t. t - arctan t) 0 \<le> (\<lambda>t. t - arctan t) x"
  proof (rule DERIV_nonneg_imp_nondecreasing [OF x])
    fix t :: real
    have d: "((\<lambda>t. t - arctan t) has_real_derivative (1 - inverse (1 + t\<^sup>2))) (at t)"
      by (auto intro!: derivative_eq_intros)
    have "inverse (1 + t\<^sup>2) \<le> 1"
      by (simp add: inverse_le_1_iff)
    then have "0 \<le> 1 - inverse (1 + t\<^sup>2)" by simp
    with d show "\<exists>y. ((\<lambda>t. t - arctan t) has_real_derivative y) (at t) \<and> 0 \<le> y"
      by blast
  qed
  then show ?thesis by simp
qed

lemma arctan_ge_cubic: "0 \<le> x \<Longrightarrow> x - x ^ 3 / 3 \<le> arctan x"
proof -
  assume x: "0 \<le> x"
  let ?f = "\<lambda>t. arctan t - t + t ^ 3 / 3"
  have "?f 0 \<le> ?f x"
  proof (rule DERIV_nonneg_imp_nondecreasing [OF x])
    fix t :: real
    have d: "(?f has_real_derivative (inverse (1 + t\<^sup>2) - 1 + t\<^sup>2)) (at t)"
      by (auto intro!: derivative_eq_intros)
    have p: "0 < 1 + t\<^sup>2" by (simp add: add_pos_nonneg)
    have e: "inverse (1 + t\<^sup>2) - 1 + t\<^sup>2 = t ^ 4 / (1 + t\<^sup>2)"
      using p by (simp add: field_simps power2_eq_square power4_eq_xxxx)
    have "0 \<le> t ^ 4 / (1 + t\<^sup>2)"
      using p by simp
    with e have "0 \<le> inverse (1 + t\<^sup>2) - 1 + t\<^sup>2" by simp
    with d show "\<exists>y. (?f has_real_derivative y) (at t) \<and> 0 \<le> y"
      by blast
  qed
  then show ?thesis by simp
qed

lemma pi_gt_314: "3.14 < pi"
proof -
  have a: "(1/5 :: real) - (1/5) ^ 3 / 3 \<le> arctan (1/5)"
    by (rule arctan_ge_cubic) simp
  have b: "arctan (1/239) \<le> (1/239 :: real)"
    by (rule arctan_le_self) simp
  have "pi = 16 * arctan (1/5) - 4 * arctan (1/239)"
    using machin by simp
  with a b show ?thesis by (simp add: power3_eq_cube)
qed

lemma sin_314_pos: "0 < sin (3.14 :: real)"
  using pi_gt_314 by (intro sin_gt_zero) simp_all

subsection \<open>Properties of the shading\<close>

text \<open>
  C5, as stated, fails: the banding factor is the sine of \<open>uv.x\<close> times the literal
  \<^verbatim>\<open>3.14\<close>, not times \<open>pi\<close>. At \<open>uv = (1, 0)\<close>, with white palette colours, noise \<open>0\<close>,
  \<open>uvNoise = 0\<close> and spike length \<open>1\<close>, the specification's formula gives the grey level
  \<open>0.4\<close>, the shader \<open>sin 3.14 * 0.6 + 0.4\<close>, which is larger.
\<close>

theorem C5_banding_is_not_sin_pi:
  "shading_formula pi (constant_noise3 0) (plain_uniforms (Vec2 0 0) 0) (Vec2 1 0) 0
     = Vec4 0.4 0.4 0.4 1
   \<and> fragmentShader (constant_noise3 0) (plain_uniforms (Vec2 0 0) 0) (Vec2 1 0) 0
     = Some (Vec4 (sin 3.14 * 0.6 + 0.4) (sin 3.14 * 0.6 + 0.4) (sin 3.14 * 0.6 + 0.4) 1)
   \<and> (0.4 :: real) < sin 3.14 * 0.6 + 0.4
   \<and> fragmentShader (constant_noise3 0) (plain_uniforms (Vec2 0 0) 0) (Vec2 1 0) 0
     \<noteq> Some (shading_formula pi (constant_noise3 0) (plain_uniforms (Vec2 0 0) 0) (Vec2 1 0) 0)"
  using sin_314_pos
  by (simp add: fragmentShader_def shading_formula_def constant_noise3_def mix3_def
      vec3_add_def vec3_scale_def Let_def plain_uniforms_def)

text \<open>
  C5, amended. For every pixel, with a spike length other than zero: \<open>n\<close> is the 3D noise
  at \<open>(uv * 6.0, time * 0.02)\<close> times \<open>0.5\<close> plus \<open>0.5\<close>, \<open>color = mix(A, B, n)\<close>,
  \<open>sine = sin(uv.x * 3.14)\<close>, \<open>darkness = uvNoise / spikeLength + 1.0\<close>, and the final
  colour is \<open>color * (sine * 0.6 + 0.4) * darkness\<close> with alpha \<open>1\<close>.
\<close>

theorem C5_shading_model:
  "u_spikeLength U \<noteq> 0 \<Longrightarrow>
   fragmentShader noise U vUv uvNoise = Some (shading_formula 3.14 noise U vUv uvNoise)
   \<and> v4w (shading_formula 3.14 noise U vUv uvNoise) = 1"
  by (simp add: fragmentShader_def shading_formula_def mix3_def vec3_add_def vec3_scale_def
      Let_def mult.assoc)

theorem C5_shading_witness:
  "u_spikeLength \<lparr>u_time = 0, u_colorA = Vec3 1 0 0, u_colorB = Vec3 0 0 1, u_impulse = Vec2 0 0,
       u_spikeCount = 1, u_spikeLength = 1, u_sceneRotationY = 0\<rparr> \<noteq> 0
   \<and> fragmentShader (constant_noise3 0)
      \<lparr>u_time = 0, u_colorA = Vec3 1 0 0, u_colorB = Vec3 0 0 1, u_impulse = Vec2 0 0,
       u_spikeCount = 1, u_spikeLength = 1, u_sceneRotationY = 0\<rparr> (Vec2 0 0) 1
     = Some (Vec4 0.4 0 0.4 1)"
  using C5_shading_model [where noise = "constant_noise3 0" and vUv = "Vec2 0 0" and uvNoise = 1
      and U = "\<lparr>u_time = 0, u_colorA = Vec3 1 0 0, u_colorB = Vec3 0 0 1, u_impulse = Vec2 0 0,
       u_spikeCount = 1, u_spikeLength = 1, u_sceneRotationY = 0\<rparr>"]
  by (simp add: shading_formula_def constant_noise3_def mix3_def vec3_add_def vec3_scale_def
      Let_def)

section \<open>The pseudo-random stream\<close>

text \<open>
  \<^verbatim>\<open>createDefaults\<close> draws from the module \<^verbatim>\<open>random\<close> of the package
  \<^verbatim>\<open>canvas-sketch-util\<close>, and \<^verbatim>\<open>createMesh\<close> builds colours with \<^verbatim>\<open>THREE.Color\<close>; neither is
  part of the sources. The record \<open>env\<close> holds what they provide: the seeded generator
  (its state is of type \<open>'g\<close>), the host's \<^verbatim>\<open>Math.random\<close> as the sequence of its draws,
  the palette library and the colour constructor.
\<close>

record 'g env =
  seedRandom :: "int \<Rightarrow> 'g"
  nextValue :: "'g \<Rightarrow> real \<times> 'g"
  mathRandom :: "nat \<Rightarrow> real"
  palettes :: "string list list"
  Color :: "string option \<Rightarrow> vec3"

datatype 'g generator = Seeded 'g | Unseeded

record 'g rng =
  currentRandom :: "'g generator"
  drawn :: nat

definition random_value :: "'g env \<Rightarrow> 'g rng \<Rightarrow> real \<times> 'g rng" where
  \<comment> \<open>Modelled from the spec: \<^verbatim>\<open>random.value\<close> is missing. One draw of the current
      stream: of the seeded generator, or of \<^verbatim>\<open>Math.random\<close> when no seed is set.\<close>
  "random_value E r =
     (case currentRandom r of
        Seeded g \<Rightarrow> (let (v, g') = nextValue E g in (v, r\<lparr>currentRandom := Seeded g'\<rparr>))
      | Unseeded \<Rightarrow> (mathRandom E (drawn r), r\<lparr>drawn := Suc (drawn r)\<rparr>))"

definition random_setSeed :: "'g env \<Rightarrow> int option \<Rightarrow> 'g rng \<Rightarrow> 'g rng" where
  \<comment> \<open>Modelled from the spec: \<^verbatim>\<open>random.setSeed\<close> is missing. A number seeds a new
      stream; \<^verbatim>\<open>undefined\<close> (\<open>None\<close>) resets to the unseeded stream.\<close>
  "random_setSeed E seed r =
     (case seed of
        Some s \<Rightarrow> r\<lparr>currentRandom := Seeded (seedRandom E s)\<rparr>
      | None \<Rightarrow> r\<lparr>currentRandom := Unseeded\<rparr>)"

definition random_range :: "'g env \<Rightarrow> real \<Rightarrow> real \<Rightarrow> 'g rng \<Rightarrow> real \<times> 'g rng" where
  \<comment> \<open>Modelled from the spec: \<^verbatim>\<open>random.range\<close> is missing. A uniform draw from
      \<open>[lo, hi]\<close>: the unit draw mapped affinely.\<close>
  "random_range E lo hi r = (let (v, r') = random_value E r in (v * (hi - lo) + lo, r'))"

definition random_pick :: "'g env \<Rightarrow> 'a list \<Rightarrow> 'g rng \<Rightarrow> 'a option \<times> 'g rng" where
  \<comment> \<open>Modelled from the spec: \<^verbatim>\<open>random.pick\<close> is missing. A uniform choice of one
      element: the element at the floor of a draw from \<open>[0, length]\<close>; reading an array
      out of range, or an empty one, gives \<^verbatim>\<open>undefined\<close> (\<open>None\<close>).\<close>
  "random_pick E xs r =
     (if xs = [] then (None, r)
      else let (v, r') = random_range E 0 (real (length xs)) r;
               i = \<lfloor>v\<rfloor>
           in (if 0 \<le> i \<and> i < int (length xs) then Some (xs ! nat i) else None, r'))"

section \<open>The sketch: shared data, parameter generator, mesh\<close>

datatype error = TypeError

record data =
  shouldUpdate :: bool
  shouldReset :: bool
  palette :: "string list option"
  spikeLength :: real
  spikeDetail :: real

text \<open>
  The state of the sketch: the shared \<^verbatim>\<open>data\<close>, the random module, the variable
  \<^verbatim>\<open>mesh\<close> (\<open>None\<close> is \<^verbatim>\<open>null\<close>; a mesh is its uniforms, the geometry and the shaders
  being constants), whether that mesh is a child of the scene, the drag state and the
  rotation of the scene. \<^verbatim>\<open>u_impulse\<close> is assigned the object \<^verbatim>\<open>currentImpulse\<close> itself;
  the model stores the value it has when \<^verbatim>\<open>render\<close> assigns it, which is the value the
  draw call of that frame reads.
\<close>

record 'g state =
  data :: data
  random :: "'g rng"
  mesh :: "uniforms option"
  inScene :: bool
  isMouseDown :: bool
  mouseList :: "vec2 list"
  currentImpulse :: vec2
  rotation_x :: real
  rotation_y :: real

definition colorSeeds :: "int list" where
  "colorSeeds = [495948, 234144, 382666, 946739, 253862, 729250, 12290, 958027, 277064, 339463]"

definition spikeSeeds :: "int list" where
  "spikeSeeds = [614884, 383036, 191802, 967721, 384540, 111465]"

definition spikeLengthSeeds :: "int list" where
  "spikeLengthSeeds = [533299, 122798]"

definition createDefaults :: "'g env \<Rightarrow> 'g state \<Rightarrow> 'g state" where
  "createDefaults E st =
     (let (s1, r) = random_pick E spikeSeeds (random st);
          r = random_setSeed E s1 r;
          (detail, r) = random_range E 1.35 40 r;
          r = random_setSeed E None r;
          (s2, r) = random_pick E spikeLengthSeeds r;
          r = random_setSeed E s2 r;
          (len, r) = random_range E 1.0 1.4 r;
          r = random_setSeed E None r;
          (s3, r) = random_pick E colorSeeds r;
          r = random_setSeed E s3 r;
          (pal, r) = random_pick E (palettes E) r
      in st\<lparr>data := (data st)\<lparr>spikeDetail := detail, spikeLength := len, palette := pal\<rparr>,
             random := r\<rparr>)"

definition index :: "'a list \<Rightarrow> nat \<Rightarrow> 'a option" where
  \<comment> \<open>\<^verbatim>\<open>xs[i]\<close>: \<^verbatim>\<open>undefined\<close> out of range\<close>
  "index xs i = (if i < length xs then Some (xs ! i) else None)"

definition createMesh :: "'g env \<Rightarrow> bool \<Rightarrow> 'g state \<Rightarrow> error option \<times> 'g state" where
  \<comment> \<open>Reading \<^verbatim>\<open>palette[0]\<close> of an undefined palette throws; the state then is the one
      reached so far, with the old mesh out of the scene.\<close>
  "createMesh E reset st =
     (let st = (if mesh st \<noteq> None then st\<lparr>inScene := False\<rparr> else st);
          st = (if reset then createDefaults E st else st)
      in case palette (data st) of
           None \<Rightarrow> (Some TypeError, st)
         | Some pal \<Rightarrow>
             (None, st\<lparr>mesh := Some \<lparr>u_time = 0,
                                      u_colorA = Color E (index pal 0),
                                      u_colorB = Color E (index pal 3),
                                      u_impulse = Vec2 0 0,
                                      u_spikeCount = spikeDetail (data st),
                                      u_spikeLength = spikeLength (data st),
                                      u_sceneRotationY = 0\<rparr>,
                        inScene := True\<rparr>))"

definition initial :: "'g rng \<Rightarrow> 'g state" where
  \<comment> \<open>the variables as declared, before \<^verbatim>\<open>createDefaults()\<close> and \<^verbatim>\<open>createMesh()\<close> run\<close>
  "initial r =
     \<lparr>data = \<lparr>shouldUpdate = False, shouldReset = False, palette = Some [],
              spikeLength = 1, spikeDetail = 0\<rparr>,
      random = r, mesh = None, inScene = False, isMouseDown = False,
      mouseList = [Vec2 1 1], currentImpulse = Vec2 0 0, rotation_x = 0, rotation_y = 0\<rparr>"

definition sketch :: "'g env \<Rightarrow> 'g rng \<Rightarrow> error option \<times> 'g state" where
  "sketch E r = createMesh E False (createDefaults E (initial r))"

section \<open>The frame callback\<close>

definition advance :: "real \<Rightarrow> 'g state \<Rightarrow> error option \<times> 'g state" where
  \<comment> \<open>the part of \<^verbatim>\<open>render\<close> after the rebuilds: rotate the scene, update the uniforms
      (the draw call itself changes nothing of the state)\<close>
  "advance time st =
     (let imp = Vec2 (v2x (currentImpulse st) * 0.9) (v2y (currentImpulse st) * 0.9);
          st = st\<lparr>currentImpulse := imp,
                  rotation_y := rotation_y st + (0.003 + v2x imp),
                  rotation_x := rotation_x st + v2y imp\<rparr>
      in case mesh st of
           None \<Rightarrow> (Some TypeError, st)
         | Some m \<Rightarrow>
             (None, st\<lparr>mesh := Some (m\<lparr>u_time := time,
                                         u_impulse := currentImpulse st,
                                         u_sceneRotationY := rotation_y st\<rparr>)\<rparr>))"

definition render :: "'g env \<Rightarrow> real \<Rightarrow> 'g state \<Rightarrow> error option \<times> 'g state" where
  \<comment> \<open>An exception of \<^verbatim>\<open>createMesh\<close> ends the callback with the state reached so far.\<close>
  "render E time st0 =
     (let reset = shouldReset (data st0);
          update = shouldUpdate (data st0);
          (e, st) = (if reset
                     then createMesh E True
                            (st0\<lparr>data := (data st0)\<lparr>shouldReset := False, shouldUpdate := False\<rparr>\<rparr>)
                     else (None, st0))
      in if e \<noteq> None then (e, st)
         else
           let (e, st) = (if update
                          then createMesh E False (st\<lparr>data := (data st)\<lparr>shouldUpdate := False\<rparr>\<rparr>)
                          else (None, st))
           in if e \<noteq> None then (e, st) else advance time st)"

fun frames :: "'g env \<Rightarrow> real list \<Rightarrow> 'g state \<Rightarrow> error option \<times> 'g state" where
  "frames E [] st = (None, st)"
| "frames E (t # ts) st =
     (case render E t st of
        (None, st') \<Rightarrow> frames E ts st'
      | (Some e, st') \<Rightarrow> (Some e, st'))"

section \<open>Interaction\<close>

text \<open>
  An input event carries the client coordinates of a mouse event (\<^verbatim>\<open>undefined\<close>, here
  \<open>None\<close>, on a touch event) and the list of touches (empty on a mouse event). The
  handlers compute on JavaScript numbers; where a coordinate is not a real number (an
  undefined coordinate, a division by a window size of zero) the model answers \<open>None\<close>.
\<close>

record touch =
  pageX :: real
  pageY :: real

record event =
  clientX :: "real option"
  clientY :: "real option"
  touches :: "touch list"

record window =
  innerWidth :: real
  innerHeight :: real

definition getInputPosition :: "window \<Rightarrow> event \<Rightarrow> vec2 option" where
  "getInputPosition w e =
     (let (eX, eY) = (if length (touches e) > 0
                      then (Some (pageX (hd (touches e))), Some (pageY (hd (touches e))))
                      else (clientX e, clientY e))
      in case (eX, eY) of
           (Some eX, Some eY) \<Rightarrow>
             if innerWidth w = 0 \<or> innerHeight w = 0 then None
             else Some (Vec2 ((eX / innerWidth w) * 2 - 1) (- (eY / innerHeight w) * 2 + 1))
         | _ \<Rightarrow> None)"

definition truncate :: "real \<Rightarrow> int" where
  \<comment> \<open>the integer part, rounding towards zero\<close>
  "truncate q = (if q < 0 then \<lceil>q\<rceil> else \<lfloor>q\<rfloor>)"

definition js_rem :: "real \<Rightarrow> real \<Rightarrow> real option" where
  \<comment> \<open>JavaScript's \<^verbatim>\<open>a % b\<close> on finite numbers: the remainder of the division truncated
      towards zero, with the sign of \<open>a\<close>; \<^verbatim>\<open>NaN\<close> (\<open>None\<close>) when \<open>b\<close> is zero.\<close>
  "js_rem a b = (if b = 0 then None else Some (a - b * of_int (truncate (a / b))))"

definition direction :: "real \<Rightarrow> real" where
  \<comment> \<open>\<^verbatim>\<open>((scene.rotation.x + Math.PI / 2) / Math.PI) % 2 > 1 ? -1 : 1\<close>; a comparison with
      \<^verbatim>\<open>NaN\<close> is false\<close>
  "direction rotX =
     (case js_rem ((rotX + pi / 2) / pi) 2 of
        Some m \<Rightarrow> if m > 1 then - 1 else 1
      | None \<Rightarrow> 1)"

definition onMouseMove :: "window \<Rightarrow> event \<Rightarrow> 'g state \<Rightarrow> 'g state option" where
  "onMouseMove w e st =
     (if isMouseDown st
      then case getInputPosition w e of
             None \<Rightarrow> None
           | Some p \<Rightarrow>
               let lastMouse = (if length (mouseList st) > 0 then last (mouseList st) else p);
                   imp = currentImpulse st
               in Some (st\<lparr>mouseList := mouseList st @ [p],
                            currentImpulse :=
                              Vec2 (v2x imp + direction (rotation_x st) * (v2x p - v2x lastMouse) * 0.5)
                                   (v2y imp - (v2y p - v2y lastMouse) * 0.5)\<rparr>)
      else Some st)"

definition onMouseDown :: "window \<Rightarrow> event \<Rightarrow> 'g state \<Rightarrow> 'g state option" where
  "onMouseDown w e st =
     (case getInputPosition w e of
        None \<Rightarrow> None
      | Some p \<Rightarrow> Some (st\<lparr>isMouseDown := True, mouseList := [p]\<rparr>))"

definition onMouseUp :: "event \<Rightarrow> 'g state \<Rightarrow> 'g state" where
  "onMouseUp e st = st\<lparr>isMouseDown := False\<rparr>"

text \<open>The controls of the panel: the two sliders and the button \<^verbatim>\<open>Regenerate\<close>.\<close>

definition slider :: "real \<Rightarrow> real \<Rightarrow> real \<Rightarrow> real \<Rightarrow> real" where
  \<comment> \<open>Modelled from the spec: the numeric slider of the package \<^verbatim>\<open>dat.gui\<close> is missing.
      The value stored for an input \<open>v\<close>: clamped to the range \<open>[lo, hi]\<close>, then rounded to
      the nearest multiple of the step (a tie goes up).\<close>
  "slider lo hi step v =
     (let v = (if v < lo then lo else if v > hi then hi else v)
      in of_int \<lfloor>v / step + 1 / 2\<rfloor> * step)"

definition gui_Detail :: "real \<Rightarrow> 'g state \<Rightarrow> 'g state" where
  \<comment> \<open>\<^verbatim>\<open>gui.add(data, "spikeDetail", 1, 50, 0.01)\<close> and its \<^verbatim>\<open>onChange\<close>\<close>
  "gui_Detail v st =
     st\<lparr>data := (data st)\<lparr>spikeDetail := slider 1 50 0.01 v, shouldUpdate := True\<rparr>\<rparr>"

definition gui_Size :: "real \<Rightarrow> 'g state \<Rightarrow> 'g state" where
  \<comment> \<open>\<^verbatim>\<open>gui.add(data, "spikeLength", 1, 1.5, 0.01)\<close> and its \<^verbatim>\<open>onChange\<close>\<close>
  "gui_Size v st =
     st\<lparr>data := (data st)\<lparr>spikeLength := slider 1 1.5 0.01 v, shouldUpdate := True\<rparr>\<rparr>"

definition gui_Regenerate :: "'g state \<Rightarrow> 'g state" where
  "gui_Regenerate st = st\<lparr>data := (data st)\<lparr>shouldReset := True\<rparr>\<rparr>"

section \<open>A concrete environment\<close>

definition example_env :: "nat env" where
  \<comment> \<open>a small generator for concrete evaluations: the state counts up from the seed, a
      draw is its last decimal digit over ten; \<^verbatim>\<open>Math.random\<close> always draws one half\<close>
  "example_env =
     \<lparr>seedRandom = nat,
      nextValue = (\<lambda>g. (real (g mod 10) / 10, Suc g)),
      mathRandom = (\<lambda>n. 1 / 2),
      palettes = [[''#69d2e7'', ''#a7dbd8'', ''#e0e4cc'', ''#f38630'', ''#fa6900''],
                  [''#fe4365'', ''#fc9d9a'', ''#f9cdad'', ''#c8c8a9'', ''#83af9b'']],
      Color = (\<lambda>c. if c = None then Vec3 1 1 1 else Vec3 0 0 0)\<rparr>"

definition example_rng :: "nat rng" where
  "example_rng = \<lparr>currentRandom = Unseeded, drawn = 0\<rparr>"

section \<open>Concrete states\<close>

definition example_state :: "nat state" where
  "example_state = snd (sketch example_env example_rng)"

definition example_window :: window where
  "example_window = \<lparr>innerWidth = 1000, innerHeight = 1000\<rparr>"

definition mouse_at :: "real \<Rightarrow> real \<Rightarrow> event" where
  "mouse_at x y = \<lparr>clientX = Some x, clientY = Some y, touches = []\<rparr>"

definition dragged_state :: "nat state" where
  \<comment> \<open>the example state after a press at the centre of the window and a move to the right\<close>
  "dragged_state =
     the (onMouseMove example_window (mouse_at 550 500)
       (the (onMouseDown example_window (mouse_at 500 500) example_state)))"

section \<open>Properties of the parameter generator\<close>

definition unit_stream :: "'g env \<Rightarrow> bool" where
  \<comment> \<open>every draw, seeded or not, lies in \<open>[0, 1)\<close>\<close>
  "unit_stream E \<longleftrightarrow>
     (\<forall>g. 0 \<le> fst (nextValue E g) \<and> fst (nextValue E g) < 1)
     \<and> (\<forall>n. 0 \<le> mathRandom E n \<and> mathRandom E n < 1)"

definition seeded :: "'g env \<Rightarrow> int \<Rightarrow> 'g rng" where
  \<comment> \<open>a generator of its own, started from the seed\<close>
  "seeded E s = \<lparr>currentRandom = Seeded (seedRandom E s), drawn = 0\<rparr>"

text \<open>
  The parameter set as a function of three seeds, in the words of the specification:
  three independent generators, one per seed, each drawn once.
\<close>

definition pickParams :: "'g env \<Rightarrow> int \<Rightarrow> int \<Rightarrow> int \<Rightarrow> real \<times> real \<times> string list option" where
  "pickParams E seedA seedB seedC =
     (fst (random_range E 1.35 40 (seeded E seedA)),
      fst (random_range E 1.0 1.4 (seeded E seedB)),
      fst (random_pick E (palettes E) (seeded E seedC)))"

lemma random_value_unit:
  "unit_stream E \<Longrightarrow> 0 \<le> fst (random_value E r) \<and> fst (random_value E r) < 1"
  by (cases "currentRandom r")
     (simp_all add: random_value_def unit_stream_def split_beta)

lemma random_range_bounds:
  assumes "unit_stream E" "lo \<le> hi"
  shows "lo \<le> fst (random_range E lo hi r) \<and> fst (random_range E lo hi r) \<le> hi"
proof -
  let ?v = "fst (random_value E r)"
  have v: "0 \<le> ?v" "?v \<le> 1"
    using random_value_unit [OF assms(1), of r] by simp_all
  have d: "0 \<le> hi - lo" using assms(2) by simp
  have "0 \<le> ?v * (hi - lo)" using v d by simp
  moreover have "?v * (hi - lo) \<le> 1 * (hi - lo)"
    using v d by (intro mult_right_mono) simp_all
  ultimately show ?thesis
    by (simp add: random_range_def split_beta)
qed

lemma random_pick_member:
  assumes "unit_stream E" "xs \<noteq> []"
  shows "\<exists>x \<in> set xs. fst (random_pick E xs r) = Some x"
proof -
  let ?n = "real (length xs)"
  let ?v = "fst (random_value E r)"
  have n: "0 < ?n" using assms(2) by simp
  have v: "0 \<le> ?v" "?v < 1"
    using random_value_unit [OF assms(1), of r] by simp_all
  have lo: "0 \<le> ?v * ?n" using v n by simp
  have hi: "?v * ?n < ?n" using v n by simp
  have i0: "0 \<le> \<lfloor>?v * ?n\<rfloor>" using lo by simp
  have i1: "\<lfloor>?v * ?n\<rfloor> < int (length xs)"
    using hi by (simp add: floor_less_iff)
  then have "nat \<lfloor>?v * ?n\<rfloor> < length xs" using i0 by linarith
  then have m: "xs ! nat \<lfloor>?v * ?n\<rfloor> \<in> set xs" by simp
  have "fst (random_pick E xs r) = Some (xs ! nat \<lfloor>?v * ?n\<rfloor>)"
    using assms(2) i0 i1 by (simp add: random_pick_def random_range_def split_beta Let_def)
  with m show ?thesis by blast
qed

lemma random_value_seeded:
  "fst (random_value E (random_setSeed E (Some s) r)) = fst (random_value E (seeded E s))"
  by (simp add: random_value_def random_setSeed_def seeded_def split_beta)

lemma random_range_seeded:
  "fst (random_range E lo hi (random_setSeed E (Some s) r)) = fst (random_range E lo hi (seeded E s))"
  by (simp add: random_range_def split_beta random_value_seeded)

lemma random_pick_seeded:
  "fst (random_pick E xs (random_setSeed E (Some s) r)) = fst (random_pick E xs (seeded E s))"
  by (simp add: random_pick_def random_range_def split_beta Let_def random_value_seeded)

text \<open>
  C8. With a stream whose draws lie in \<open>[0, 1)\<close>, \<^verbatim>\<open>createDefaults\<close> stores the parameter
  set of three seeds, one of each pool, and that set is a function of the three seeds
  alone (\<open>pickParams\<close>): it depends neither on the state of the stream before nor on the
  other draws. The spike detail lies in \<open>[1.35, 40]\<close> and the spike length in
  \<open>[1.0, 1.4]\<close>.
\<close>

theorem C8_parameters_from_seeds:
  assumes "unit_stream E"
  shows "\<exists>seedA \<in> set spikeSeeds. \<exists>seedB \<in> set spikeLengthSeeds. \<exists>seedC \<in> set colorSeeds.
           (spikeDetail (data (createDefaults E st)), spikeLength (data (createDefaults E st)),
            palette (data (createDefaults E st))) = pickParams E seedA seedB seedC
           \<and> 1.35 \<le> spikeDetail (data (createDefaults E st))
           \<and> spikeDetail (data (createDefaults E st)) \<le> 40
           \<and> 1.0 \<le> spikeLength (data (createDefaults E st))
           \<and> spikeLength (data (createDefaults E st)) \<le> 1.4"
proof -
  define p1 where "p1 = random_pick E spikeSeeds (random st)"
  define d where "d = random_range E 1.35 40 (random_setSeed E (fst p1) (snd p1))"
  define p2 where "p2 = random_pick E spikeLengthSeeds (random_setSeed E None (snd d))"
  define l where "l = random_range E 1.0 1.4 (random_setSeed E (fst p2) (snd p2))"
  define p3 where "p3 = random_pick E colorSeeds (random_setSeed E None (snd l))"
  define q where "q = random_pick E (palettes E) (random_setSeed E (fst p3) (snd p3))"
  have fields: "spikeDetail (data (createDefaults E st)) = fst d"
    "spikeLength (data (createDefaults E st)) = fst l"
    "palette (data (createDefaults E st)) = fst q"
    by (simp_all add: createDefaults_def Let_def split_beta p1_def d_def p2_def l_def p3_def q_def)
  obtain a where a: "a \<in> set spikeSeeds" "fst p1 = Some a"
    using random_pick_member [OF assms, of spikeSeeds "random st"]
    by (auto simp: p1_def spikeSeeds_def)
  obtain b where b: "b \<in> set spikeLengthSeeds" "fst p2 = Some b"
    using random_pick_member [OF assms, of spikeLengthSeeds "random_setSeed E None (snd d)"]
    by (auto simp: p2_def spikeLengthSeeds_def)
  obtain c where c: "c \<in> set colorSeeds" "fst p3 = Some c"
    using random_pick_member [OF assms, of colorSeeds "random_setSeed E None (snd l)"]
    by (auto simp: p3_def colorSeeds_def)
  have eq: "(fst d, fst l, fst q) = pickParams E a b c"
    using a(2) b(2) c(2)
    by (simp add: pickParams_def d_def l_def q_def random_range_seeded random_pick_seeded)
  have bd: "1.35 \<le> fst d \<and> fst d \<le> 40"
    unfolding d_def by (rule random_range_bounds [OF assms]) simp
  have bl: "1.0 \<le> fst l \<and> fst l \<le> 1.4"
    unfolding l_def by (rule random_range_bounds [OF assms]) simp
  show ?thesis
    using a(1) b(1) c(1) eq bd bl unfolding fields by blast
qed

lemma unit_stream_example: "unit_stream example_env"
  by (simp add: unit_stream_def example_env_def)

lemma createDefaults_example:
  "createDefaults example_env (initial example_rng)
   = (initial example_rng)
       \<lparr>data := \<lparr>shouldUpdate = False, shouldReset = False,
                 palette = Some [''#69d2e7'', ''#a7dbd8'', ''#e0e4cc'', ''#f38630'', ''#fa6900''],
                 spikeLength = 1.32, spikeDetail = 5.215\<rparr>,
        random := \<lparr>currentRandom = Seeded 729251, drawn = 3\<rparr>\<rparr>"
  by (simp add: createDefaults_def initial_def example_rng_def example_env_def
      random_pick_def random_range_def random_value_def random_setSeed_def
      spikeSeeds_def spikeLengthSeeds_def colorSeeds_def Let_def)


lemma example_state_eq:
  "example_state
   = \<lparr>data = \<lparr>shouldUpdate = False, shouldReset = False,
               palette = Some [''#69d2e7'', ''#a7dbd8'', ''#e0e4cc'', ''#f38630'', ''#fa6900''],
               spikeLength = 1.32, spikeDetail = 5.215\<rparr>,
      random = \<lparr>currentRandom = Seeded 729251, drawn = 3\<rparr>,
      mesh = Some \<lparr>u_time = 0, u_colorA = Vec3 0 0 0, u_colorB = Vec3 0 0 0,
                   u_impulse = Vec2 0 0, u_spikeCount = 5.215, u_spikeLength = 1.32,
                   u_sceneRotationY = 0\<rparr>,
      inScene = True, isMouseDown = False, mouseList = [Vec2 1 1],
      currentImpulse = Vec2 0 0, rotation_x = 0, rotation_y = 0\<rparr>"
  unfolding example_state_def sketch_def createDefaults_example
  by (simp add: createMesh_def initial_def index_def example_env_def)

theorem C8_example_parameters:
  "unit_stream example_env
   \<and> (\<exists>seedA \<in> set spikeSeeds. \<exists>seedB \<in> set spikeLengthSeeds. \<exists>seedC \<in> set colorSeeds.
         (spikeDetail (data (createDefaults example_env (initial example_rng))),
          spikeLength (data (createDefaults example_env (initial example_rng))),
          palette (data (createDefaults example_env (initial example_rng))))
           = pickParams example_env seedA seedB seedC
         \<and> 1.35 \<le> spikeDetail (data (createDefaults example_env (initial example_rng)))
         \<and> spikeDetail (data (createDefaults example_env (initial example_rng))) \<le> 40
         \<and> 1.0 \<le> spikeLength (data (createDefaults example_env (initial example_rng)))
         \<and> spikeLength (data (createDefaults example_env (initial example_rng))) \<le> 1.4)"
  using unit_stream_example C8_parameters_from_seeds [OF unit_stream_example, of "initial example_rng"]
  by simp

section \<open>Properties of the frame callback\<close>

lemma createDefaults_flags:
  "shouldReset (data (createDefaults E st)) = shouldReset (data st)"
  "shouldUpdate (data (createDefaults E st)) = shouldUpdate (data st)"
  by (simp_all add: createDefaults_def Let_def split_beta)

lemma createDefaults_impulse: "currentImpulse (createDefaults E st) = currentImpulse st"
  by (simp add: createDefaults_def Let_def split_beta)

lemma createMesh_flags:
  "createMesh E b st = (e, st') \<Longrightarrow>
   shouldReset (data st') = shouldReset (data st) \<and> shouldUpdate (data st') = shouldUpdate (data st)"
  by (auto simp: createMesh_def Let_def createDefaults_flags split: option.splits if_splits)

lemma createMesh_impulse:
  "createMesh E b st = (e, st') \<Longrightarrow> currentImpulse st' = currentImpulse st"
  by (auto simp: createMesh_def Let_def createDefaults_impulse split: option.splits if_splits)

lemma createMesh_no_reset:
  "createMesh E False st = (e, st') \<Longrightarrow> data st' = data st \<and> random st' = random st"
  by (auto simp: createMesh_def Let_def split: option.splits if_splits)

lemma advance_data: "advance t st = (e, st') \<Longrightarrow> data st' = data st \<and> random st' = random st"
  by (auto simp: advance_def Let_def split: option.splits)

lemma advance_impulse:
  "advance t st = (e, st') \<Longrightarrow>
   currentImpulse st' = Vec2 (v2x (currentImpulse st) * 0.9) (v2y (currentImpulse st) * 0.9)"
  by (auto simp: advance_def Let_def split: option.splits)

lemma render_impulse:
  assumes "fst (render E t st) = None"
  shows "currentImpulse (snd (render E t st))
         = Vec2 (v2x (currentImpulse st) * 0.9) (v2y (currentImpulse st) * 0.9)"
proof -
  obtain e st' where r: "render E t st = (e, st')"
    by (cases "render E t st")
  with assms have e: "e = None" by simp
  from r e have "currentImpulse st'
         = Vec2 (v2x (currentImpulse st) * 0.9) (v2y (currentImpulse st) * 0.9)"
    by (auto simp: render_def Let_def split: prod.splits if_splits
        dest!: createMesh_impulse advance_impulse)
  with r show ?thesis by simp
qed

definition idle :: "'g state \<Rightarrow> bool" where
  "idle st \<longleftrightarrow> \<not> shouldReset (data st) \<and> \<not> shouldUpdate (data st) \<and> mesh st \<noteq> None"

lemma render_idle:
  "idle st \<Longrightarrow> fst (render E t st) = None \<and> idle (snd (render E t st))"
  by (auto simp: idle_def render_def advance_def Let_def split: option.splits)

lemma frames_idle: "idle st \<Longrightarrow> fst (frames E ts st) = None"
proof (induction ts arbitrary: st)
  case Nil
  then show ?case by simp
next
  case (Cons t ts)
  obtain st' where r: "render E t st = (None, st')"
    using render_idle [OF Cons.prems, of E t] by (cases "render E t st") simp
  then have "idle st'"
    using render_idle [OF Cons.prems, of E t] by simp
  then show ?case
    using r Cons.IH by simp
qed

lemma frames_impulse:
  "fst (frames E ts st) = None \<Longrightarrow>
   currentImpulse (snd (frames E ts st))
     = Vec2 (v2x (currentImpulse st) * 0.9 ^ length ts) (v2y (currentImpulse st) * 0.9 ^ length ts)"
proof (induction ts arbitrary: st)
  case Nil
  then show ?case by simp
next
  case (Cons t ts)
  obtain e st' where r: "render E t st = (e, st')"
    by (cases "render E t st")
  with Cons.prems have e: "e = None"
    by (cases e) simp_all
  have i: "currentImpulse st'
           = Vec2 (v2x (currentImpulse st) * 0.9) (v2y (currentImpulse st) * 0.9)"
    using render_impulse [of E t st] r e by simp
  have "fst (frames E ts st') = None"
    using Cons.prems r e by simp
  then show ?case
    using Cons.IH [of st'] r e i by (simp add: mult.assoc)
qed

text \<open>
  C4. A frame that completes multiplies both components of the impulse by \<open>0.9\<close>; after
  the frames of \<open>ts\<close>, with no input event between them, the impulse is the starting one
  times \<open>0.9 ^ length ts\<close>, and it is not \<open>(0, 0)\<close> unless it started there. Frames that start
  with no rebuild requested and a mesh in place all complete.
\<close>

theorem C4_impulse_decay:
  "(\<not> shouldReset (data st) \<and> \<not> shouldUpdate (data st) \<and> mesh st \<noteq> None
      \<longrightarrow> fst (frames E ts st) = None)
   \<and> (fst (render E t st) = None \<longrightarrow>
        currentImpulse (snd (render E t st))
          = Vec2 (v2x (currentImpulse st) * 0.9) (v2y (currentImpulse st) * 0.9))
   \<and> (fst (frames E ts st) = None \<longrightarrow>
        currentImpulse (snd (frames E ts st))
          = Vec2 (v2x (currentImpulse st) * 0.9 ^ length ts)
                 (v2y (currentImpulse st) * 0.9 ^ length ts)
        \<and> (currentImpulse st \<noteq> Vec2 0 0 \<longrightarrow> currentImpulse (snd (frames E ts st)) \<noteq> Vec2 0 0))"
proof (intro conjI impI)
  assume "\<not> shouldReset (data st) \<and> \<not> shouldUpdate (data st) \<and> mesh st \<noteq> None"
  then show "fst (frames E ts st) = None"
    by (intro frames_idle) (simp add: idle_def)
next
  assume "fst (render E t st) = None"
  then show "currentImpulse (snd (render E t st))
          = Vec2 (v2x (currentImpulse st) * 0.9) (v2y (currentImpulse st) * 0.9)"
    by (rule render_impulse)
next
  assume "fst (frames E ts st) = None"
  then show "currentImpulse (snd (frames E ts st))
          = Vec2 (v2x (currentImpulse st) * 0.9 ^ length ts)
                 (v2y (currentImpulse st) * 0.9 ^ length ts)"
    by (rule frames_impulse)
next
  assume f: "fst (frames E ts st) = None" and n: "currentImpulse st \<noteq> Vec2 0 0"
  have "v2x (currentImpulse st) \<noteq> 0 \<or> v2y (currentImpulse st) \<noteq> 0"
    using n by (cases "currentImpulse st") simp
  then show "currentImpulse (snd (frames E ts st)) \<noteq> Vec2 0 0"
    using frames_impulse [OF f] by auto
qed

text \<open>
  C10. After \<^verbatim>\<open>render\<close>, whatever the two flags were and whether or not it ended with an
  exception, \<^verbatim>\<open>data.shouldReset\<close> and \<^verbatim>\<open>data.shouldUpdate\<close> are both false.
\<close>

theorem C10_flags_cleared_by_render:
  "shouldReset (data (snd (render E t st))) = False
   \<and> shouldUpdate (data (snd (render E t st))) = False"
proof -
  obtain e st' where r: "render E t st = (e, st')"
    by (cases "render E t st")
  then have "\<not> shouldReset (data st') \<and> \<not> shouldUpdate (data st')"
    by (auto simp: render_def Let_def split: prod.splits if_splits
        dest!: createMesh_flags advance_data)
  with r show ?thesis by simp
qed

lemma render_update_only:
  assumes "shouldUpdate (data st)" "\<not> shouldReset (data st)" "palette (data st) = Some pal"
  shows "render E t st
     = (None,
        st\<lparr>data := (data st)\<lparr>shouldUpdate := False\<rparr>,
           mesh := Some \<lparr>u_time = t,
                         u_colorA = Color E (index pal 0),
                         u_colorB = Color E (index pal 3),
                         u_impulse = Vec2 (v2x (currentImpulse st) * 0.9)
                                          (v2y (currentImpulse st) * 0.9),
                         u_spikeCount = spikeDetail (data st),
                         u_spikeLength = spikeLength (data st),
                         u_sceneRotationY
                           = rotation_y st + (0.003 + v2x (currentImpulse st) * 0.9)\<rparr>,
           inScene := True,
           currentImpulse := Vec2 (v2x (currentImpulse st) * 0.9) (v2y (currentImpulse st) * 0.9),
           rotation_y := rotation_y st + (0.003 + v2x (currentImpulse st) * 0.9),
           rotation_x := rotation_x st + v2y (currentImpulse st) * 0.9\<rparr>)"
  using assms by (simp add: render_def createMesh_def advance_def Let_def)

lemma render_no_reset:
  assumes "\<not> shouldReset (data st)"
  shows "spikeDetail (data (snd (render E t st))) = spikeDetail (data st)
       \<and> spikeLength (data (snd (render E t st))) = spikeLength (data st)
       \<and> palette (data (snd (render E t st))) = palette (data st)
       \<and> random (snd (render E t st)) = random st"
proof -
  obtain e st' where r: "render E t st = (e, st')"
    by (cases "render E t st")
  with assms have "spikeDetail (data st') = spikeDetail (data st)
       \<and> spikeLength (data st') = spikeLength (data st)
       \<and> palette (data st') = palette (data st) \<and> random st' = random st"
    by (auto simp: render_def Let_def split: prod.splits if_splits
        dest!: createMesh_no_reset advance_data)
  with r show ?thesis by simp
qed

lemma createDefaults_reads_random:
  assumes "random st1 = random st2"
  shows "spikeDetail (data (createDefaults E st1)) = spikeDetail (data (createDefaults E st2))"
    and "spikeLength (data (createDefaults E st1)) = spikeLength (data (createDefaults E st2))"
    and "palette (data (createDefaults E st1)) = palette (data (createDefaults E st2))"
    and "random (createDefaults E st1) = random (createDefaults E st2)"
  using assms by (simp_all add: createDefaults_def Let_def split_beta)

lemma createMesh_reset:
  assumes "createMesh E True st = (e, st')"
  shows "spikeDetail (data st') = spikeDetail (data (createDefaults E st))
       \<and> spikeLength (data st') = spikeLength (data (createDefaults E st))
       \<and> palette (data st') = palette (data (createDefaults E st))
       \<and> random st' = random (createDefaults E st)"
proof -
  define st1 where "st1 = (if mesh st \<noteq> None then st\<lparr>inScene := False\<rparr> else st)"
  have r: "random st1 = random st" by (simp add: st1_def)
  have "spikeDetail (data st') = spikeDetail (data (createDefaults E st1))
       \<and> spikeLength (data st') = spikeLength (data (createDefaults E st1))
       \<and> palette (data st') = palette (data (createDefaults E st1))
       \<and> random st' = random (createDefaults E st1)"
    using assms unfolding createMesh_def st1_def [symmetric]
    by (auto simp: Let_def split: option.splits)
  then show ?thesis
    using createDefaults_reads_random [OF r, of E] by simp
qed

lemma render_reset:
  assumes "shouldReset (data st)"
  shows "spikeDetail (data (snd (render E t st))) = spikeDetail (data (createDefaults E st))
       \<and> spikeLength (data (snd (render E t st))) = spikeLength (data (createDefaults E st))
       \<and> palette (data (snd (render E t st))) = palette (data (createDefaults E st))
       \<and> random (snd (render E t st)) = random (createDefaults E st)"
proof -
  define st0 where
    "st0 = st\<lparr>data := (data st)\<lparr>shouldReset := False, shouldUpdate := False\<rparr>\<rparr>"
  have r0: "random st0 = random st" by (simp add: st0_def)
  obtain e1 st1 where c1: "createMesh E True st0 = (e1, st1)"
    by (cases "createMesh E True st0")
  note g = createMesh_reset [OF c1] createDefaults_reads_random [OF r0, of E]
  show ?thesis
  proof (cases "e1 = None")
    case False
    then have "render E t st = (e1, st1)"
      using assms c1 by (simp add: render_def Let_def st0_def)
    with g show ?thesis by simp
  next
    case True
    obtain e2 st2 where c2:
      "(if shouldUpdate (data st)
        then createMesh E False (st1\<lparr>data := (data st1)\<lparr>shouldUpdate := False\<rparr>\<rparr>)
        else (None, st1)) = (e2, st2)"
      by (cases "if shouldUpdate (data st)
        then createMesh E False (st1\<lparr>data := (data st1)\<lparr>shouldUpdate := False\<rparr>\<rparr>)
        else (None, st1)")
    have k2: "spikeDetail (data st2) = spikeDetail (data st1)
       \<and> spikeLength (data st2) = spikeLength (data st1)
       \<and> palette (data st2) = palette (data st1) \<and> random st2 = random st1"
      using c2 by (auto split: if_splits dest!: createMesh_no_reset)
    obtain e3 st3 where c3: "advance t st2 = (e3, st3)"
      by (cases "advance t st2")
    have k3: "data st3 = data st2 \<and> random st3 = random st2"
      using c3 by (rule advance_data)
    have "render E t st = (if e2 \<noteq> None then (e2, st2) else (e3, st3))"
      using assms c1 True c2 c3 by (simp add: render_def Let_def st0_def)
    with g k2 k3 show ?thesis by (cases "e2 = None") simp_all
  qed
qed

lemma createMesh_builds:
  assumes "createMesh E b st = (e, st')" "palette (data st') = Some pal"
  shows "e = None \<and> inScene st'
       \<and> mesh st' = Some \<lparr>u_time = 0,
                            u_colorA = Color E (index pal 0),
                            u_colorB = Color E (index pal 3),
                            u_impulse = Vec2 0 0,
                            u_spikeCount = spikeDetail (data st'),
                            u_spikeLength = spikeLength (data st'),
                            u_sceneRotationY = 0\<rparr>"
  using assms by (auto simp: createMesh_def Let_def split: option.splits if_splits)

lemma advance_mesh:
  assumes "advance t st = (e, st')" "mesh st = Some m"
  shows "e = None \<and> inScene st' = inScene st
       \<and> mesh st' = Some (m\<lparr>u_time := t, u_impulse := currentImpulse st',
                               u_sceneRotationY := rotation_y st'\<rparr>)"
  using assms by (auto simp: advance_def Let_def)

lemma render_reset_mesh:
  assumes "shouldReset (data st)" "palette (data (createDefaults E st)) = Some pal"
  shows "fst (render E t st) = None
       \<and> inScene (snd (render E t st))
       \<and> mesh (snd (render E t st))
           = Some \<lparr>u_time = t,
                   u_colorA = Color E (index pal 0),
                   u_colorB = Color E (index pal 3),
                   u_impulse = currentImpulse (snd (render E t st)),
                   u_spikeCount = spikeDetail (data (createDefaults E st)),
                   u_spikeLength = spikeLength (data (createDefaults E st)),
                   u_sceneRotationY = rotation_y (snd (render E t st))\<rparr>"
proof -
  define st0 where
    "st0 = st\<lparr>data := (data st)\<lparr>shouldReset := False, shouldUpdate := False\<rparr>\<rparr>"
  have r0: "random st0 = random st" by (simp add: st0_def)
  obtain e1 st1 where c1: "createMesh E True st0 = (e1, st1)"
    by (cases "createMesh E True st0")
  note g = createMesh_reset [OF c1] createDefaults_reads_random [OF r0, of E]
  have p1: "palette (data st1) = Some pal"
    using g assms(2) by simp
  note b1 = createMesh_builds [OF c1 p1]
  obtain e2 st2 where c2:
    "(if shouldUpdate (data st)
      then createMesh E False (st1\<lparr>data := (data st1)\<lparr>shouldUpdate := False\<rparr>\<rparr>)
      else (None, st1)) = (e2, st2)"
    by (cases "if shouldUpdate (data st)
      then createMesh E False (st1\<lparr>data := (data st1)\<lparr>shouldUpdate := False\<rparr>\<rparr>)
      else (None, st1)")
  have k2: "spikeDetail (data st2) = spikeDetail (data st1)
     \<and> spikeLength (data st2) = spikeLength (data st1)
     \<and> palette (data st2) = palette (data st1)"
    using c2 by (auto split: if_splits dest!: createMesh_no_reset)
  have b2: "e2 = None \<and> inScene st2
       \<and> mesh st2 = Some \<lparr>u_time = 0,
                            u_colorA = Color E (index pal 0),
                            u_colorB = Color E (index pal 3),
                            u_impulse = Vec2 0 0,
                            u_spikeCount = spikeDetail (data st2),
                            u_spikeLength = spikeLength (data st2),
                            u_sceneRotationY = 0\<rparr>"
  proof (cases "shouldUpdate (data st)")
    case True
    with c2 have c: "createMesh E False (st1\<lparr>data := (data st1)\<lparr>shouldUpdate := False\<rparr>\<rparr>)
                     = (e2, st2)" by simp
    have "palette (data st2) = Some pal" using k2 p1 by simp
    then show ?thesis by (rule createMesh_builds [OF c])
  next
    case False
    with c2 b1 show ?thesis by simp
  qed
  obtain e3 st3 where c3: "advance t st2 = (e3, st3)"
    by (cases "advance t st2")
  have r: "render E t st = (e3, st3)"
    using assms(1) c1 b1 c2 b2 c3 by (simp add: render_def Let_def st0_def)
  show ?thesis
    using advance_mesh [OF c3] b2 k2 g r by simp
qed

text \<open>
  C9. On a frame where \<^verbatim>\<open>shouldUpdate\<close> is set and \<^verbatim>\<open>shouldReset\<close> is not (the palette being
  an array), the mesh is rebuilt from the current spike detail, spike length and palette
  colours \<open>0\<close> and \<open>3\<close>. On every frame where \<^verbatim>\<open>shouldReset\<close> is not set, those three fields
  and the random stream are left as they were: the parameter generator has not run. On a
  frame where \<^verbatim>\<open>shouldReset\<close> is set, the parameter generator runs: the three fields and
  the random stream are those \<^verbatim>\<open>createDefaults\<close> produces from the state of the frame's
  start, and (the generated palette being an array) the mesh is rebuilt from the
  generated values.
\<close>

theorem C9_rebuild_triggers:
  "(shouldUpdate (data st) \<and> \<not> shouldReset (data st) \<and> palette (data st) = Some pal \<longrightarrow>
      fst (render E t st) = None
      \<and> inScene (snd (render E t st))
      \<and> mesh (snd (render E t st))
          = Some \<lparr>u_time = t,
                  u_colorA = Color E (index pal 0),
                  u_colorB = Color E (index pal 3),
                  u_impulse = currentImpulse (snd (render E t st)),
                  u_spikeCount = spikeDetail (data st),
                  u_spikeLength = spikeLength (data st),
                  u_sceneRotationY = rotation_y (snd (render E t st))\<rparr>)
   \<and> (\<not> shouldReset (data st) \<longrightarrow>
        spikeDetail (data (snd (render E t st))) = spikeDetail (data st)
        \<and> spikeLength (data (snd (render E t st))) = spikeLength (data st)
        \<and> palette (data (snd (render E t st))) = palette (data st)
        \<and> random (snd (render E t st)) = random st)
   \<and> (shouldReset (data st) \<longrightarrow>
        spikeDetail (data (snd (render E t st))) = spikeDetail (data (createDefaults E st))
        \<and> spikeLength (data (snd (render E t st))) = spikeLength (data (createDefaults E st))
        \<and> palette (data (snd (render E t st))) = palette (data (createDefaults E st))
        \<and> random (snd (render E t st)) = random (createDefaults E st))
   \<and> (shouldReset (data st) \<and> palette (data (createDefaults E st)) = Some gen \<longrightarrow>
        fst (render E t st) = None
        \<and> inScene (snd (render E t st))
        \<and> mesh (snd (render E t st))
            = Some \<lparr>u_time = t,
                    u_colorA = Color E (index gen 0),
                    u_colorB = Color E (index gen 3),
                    u_impulse = currentImpulse (snd (render E t st)),
                    u_spikeCount = spikeDetail (data (createDefaults E st)),
                    u_spikeLength = spikeLength (data (createDefaults E st)),
                    u_sceneRotationY = rotation_y (snd (render E t st))\<rparr>)"
proof -
  have "fst (render E t st) = None
      \<and> inScene (snd (render E t st))
      \<and> mesh (snd (render E t st))
          = Some \<lparr>u_time = t,
                  u_colorA = Color E (index pal 0),
                  u_colorB = Color E (index pal 3),
                  u_impulse = currentImpulse (snd (render E t st)),
                  u_spikeCount = spikeDetail (data st),
                  u_spikeLength = spikeLength (data st),
                  u_sceneRotationY = rotation_y (snd (render E t st))\<rparr>"
    if "shouldUpdate (data st)" "\<not> shouldReset (data st)" "palette (data st) = Some pal"
    using render_update_only [OF that, of E t] by simp
  then show ?thesis
    using render_no_reset [of st E t] render_reset [of st E t] render_reset_mesh [of st E gen t]
    by blast
qed

section \<open>Properties of the interaction\<close>

lemma direction_zero: "direction 0 = 1"
  by (simp add: direction_def js_rem_def truncate_def)

lemma upside_down_quotient: "(pi + pi / 2) / pi = 3 / 2"
  by (simp add: field_simps)

lemma direction_pi: "direction pi = - 1"
  by (simp add: direction_def js_rem_def truncate_def upside_down_quotient)

text \<open>
  The rule in the words of the specification, with \<open>mod\<close> the remainder that lies in
  \<open>[0, 2)\<close>. It gives \<open>- 1\<close> exactly when the scene is upside down, that is when the cosine
  of its rotation is negative.
\<close>

definition real_mod :: "real \<Rightarrow> real \<Rightarrow> real" where
  \<comment> \<open>the remainder of the floored division: in \<open>[0, b)\<close> for a positive \<open>b\<close>\<close>
  "real_mod a b = a - b * of_int \<lfloor>a / b\<rfloor>"

definition direction_rule :: "real \<Rightarrow> real" where
  \<comment> \<open>the specification: \<open>- 1\<close> if \<open>((rotX + pi / 2) / pi) mod 2 > 1\<close>, else \<open>1\<close>\<close>
  "direction_rule rotX = (if real_mod ((rotX + pi / 2) / pi) 2 > 1 then - 1 else 1)"

lemma quotient_minus_pi: "(- pi + pi / 2) / pi = - (1 / 2)"
  by (simp add: field_simps)

lemma truncate_nonneg: "0 \<le> x \<Longrightarrow> truncate x = \<lfloor>x\<rfloor>"
  by (simp add: truncate_def)

lemma truncate_nonpos: "x \<le> 0 \<Longrightarrow> x \<le> of_int (truncate x)"
  by (cases "x < 0") (simp_all add: truncate_def)

lemma direction_minus_pi: "direction (- pi) = 1"
proof -
  have "\<lceil>- (1 / 4) :: real\<rceil> = 0" by linarith
  then show ?thesis
    by (simp add: direction_def js_rem_def truncate_def quotient_minus_pi)
qed

lemma direction_rule_minus_pi: "direction_rule (- pi) = - 1"
proof -
  have "\<lfloor>- (1 / 4) :: real\<rfloor> = - 1" by linarith
  then show ?thesis
    by (simp add: direction_rule_def real_mod_def quotient_minus_pi)
qed

lemma direction_rule_zero: "direction_rule 0 = 1"
  by (simp add: direction_rule_def real_mod_def)

lemma direction_rule_pi: "direction_rule pi = - 1"
  by (simp add: direction_rule_def real_mod_def upside_down_quotient)

lemma direction_agrees:
  assumes "- (pi / 2) \<le> rotX"
  shows "direction rotX = direction_rule rotX"
proof -
  define q where "q = (rotX + pi / 2) / pi"
  have "0 \<le> rotX + pi / 2" using assms by simp
  then have "0 \<le> q" by (simp add: q_def)
  then have "0 \<le> q / 2" by simp
  then have "truncate (q / 2) = \<lfloor>q / 2\<rfloor>" by (rule truncate_nonneg)
  then show ?thesis
    unfolding direction_def direction_rule_def js_rem_def real_mod_def q_def [symmetric]
    by simp
qed

lemma direction_negative_rotation:
  assumes "rotX \<le> - (pi / 2)"
  shows "direction rotX = 1"
proof -
  define q where "q = (rotX + pi / 2) / pi"
  have "rotX + pi / 2 \<le> 0" using assms by simp
  then have "q \<le> 0" by (simp add: q_def divide_le_0_iff)
  then have "q / 2 \<le> 0" by simp
  then have "q / 2 \<le> of_int (truncate (q / 2))" by (rule truncate_nonpos)
  then have "\<not> 1 < q - 2 * of_int (truncate (q / 2))" by simp
  then show ?thesis
    unfolding direction_def js_rem_def q_def [symmetric] by simp
qed

lemma direction_rule_upside_down: "direction_rule rotX = - 1 \<longleftrightarrow> cos rotX < 0"
proof -
  define q where "q = (rotX + pi / 2) / pi"
  define k where "k = \<lfloor>q / 2\<rfloor>"
  define m where "m = q - 2 * of_int k"
  have "of_int k \<le> q / 2" "q / 2 < of_int k + 1"
    unfolding k_def by linarith+
  then have m: "0 \<le> m" "m < 2"
    by (simp_all add: m_def)
  have "pi * q = rotX + pi / 2"
    by (simp add: q_def)
  then have "rotX = pi * q - pi / 2"
    by simp
  also have "\<dots> = (pi * m - pi / 2) + (2 * pi) * of_int k"
    by (simp add: m_def algebra_simps)
  finally have "cos rotX = cos ((pi * m - pi / 2) + (2 * pi) * of_int k)"
    by simp
  also have "\<dots> = sin (pi * m)"
    by (simp only: cos_add cos_int_2pin sin_int_2pin cos_diff) simp
  finally have c: "cos rotX = sin (pi * m)" .
  have r: "direction_rule rotX = (if m > 1 then - 1 else 1)"
    by (simp add: direction_rule_def real_mod_def q_def m_def k_def)
  show ?thesis
  proof (cases "1 < m")
    case True
    then have "pi < pi * m" by simp
    moreover have "pi * m < 2 * pi" using m(2) by simp
    ultimately have "sin (pi * m) < 0" by (rule sin_lt_zero)
    with True r c show ?thesis by simp
  next
    case False
    then have "pi * m \<le> pi" by simp
    moreover have "0 \<le> pi * m" using m(1) by simp
    ultimately have "0 \<le> sin (pi * m)" by (intro sin_ge_zero)
    with False r c show ?thesis by simp
  qed
qed

text \<open>
  C7. The drag direction of the specification is \<open>- 1\<close> when
  \<open>((rotation.x + pi / 2) / pi) mod 2 > 1\<close> and \<open>1\<close> otherwise. The handler computes the
  remainder with \<^verbatim>\<open>%\<close>, which keeps the sign of the dividend: at rotation \<open>0\<close> it gives \<open>1\<close>, at
  rotation \<open>pi\<close> the remainder is \<open>1.5\<close> and it gives \<open>- 1\<close>, as the rule does; at rotation
  \<open>- pi\<close>, where the scene is upside down and the rule gives \<open>- 1\<close>, the remainder is
  \<open>- 0.5\<close> and the handler gives \<open>1\<close>.
\<close>

theorem C7_direction_misses_negative_rotation:
  "direction (- pi) = 1 \<and> direction_rule (- pi) = - 1
   \<and> js_rem ((- pi + pi / 2) / pi) 2 = Some (- (1 / 2))
   \<and> direction 0 = 1 \<and> direction_rule 0 = 1
   \<and> js_rem ((pi + pi / 2) / pi) 2 = Some (3 / 2)
   \<and> direction pi = - 1 \<and> direction_rule pi = - 1
   \<and> direction (2 * pi) = 1 \<and> direction_rule (2 * pi) = 1"
proof -
  have a: "js_rem (3 / 2) 2 = Some (3 / 2)"
    by (simp add: js_rem_def truncate_def)
  have "\<lceil>- (1 / 4) :: real\<rceil> = 0" by linarith
  then have b: "js_rem (- (1 / 2)) 2 = Some (- (1 / 2))"
    by (simp add: js_rem_def truncate_def)
  have q: "(2 * pi + pi / 2) / pi = 5 / 2"
    by (simp add: field_simps)
  have "\<lfloor>5 / 4 :: real\<rfloor> = 1" by linarith
  then have c: "direction (2 * pi) = 1 \<and> direction_rule (2 * pi) = 1"
    by (simp add: direction_def direction_rule_def js_rem_def truncate_def real_mod_def q)
  show ?thesis
    using a b c
    by (simp add: direction_minus_pi direction_rule_minus_pi direction_zero direction_rule_zero
        direction_pi direction_rule_pi upside_down_quotient quotient_minus_pi)
qed

text \<open>
  C6. While the button is down, a move event at the normalized position \<open>(x, y)\<close> adds
  \<open>direction * (x - lastX) * 0.5\<close> to \<open>impulse.x\<close>, subtracts \<open>(y - lastY) * 0.5\<close> from
  \<open>impulse.y\<close> and makes \<open>(x, y)\<close> the last point of the drag. From the impulse \<open>(0, 0)\<close>, the
  scene rotation \<open>0\<close> and the anchor \<open>(0, 0)\<close>, a move to \<open>(0.1, 0)\<close> gives the impulse
  \<open>(0.05, 0)\<close>.
\<close>

theorem C6_drag_move:
  "isMouseDown st \<and> getInputPosition w e = Some (Vec2 x y) \<longrightarrow>
   (\<exists>st'. onMouseMove w e st = Some st'
      \<and> currentImpulse st'
          = Vec2 (v2x (currentImpulse st)
                    + direction (rotation_x st)
                      * (x - v2x (if mouseList st = [] then Vec2 x y else last (mouseList st))) * 0.5)
                 (v2y (currentImpulse st)
                    - (y - v2y (if mouseList st = [] then Vec2 x y else last (mouseList st))) * 0.5)
      \<and> last (mouseList st') = Vec2 x y
      \<and> (currentImpulse st = Vec2 0 0 \<and> rotation_x st = 0 \<and> last (mouseList st) = Vec2 0 0
            \<and> mouseList st \<noteq> [] \<and> x = 0.1 \<and> y = 0
          \<longrightarrow> direction (rotation_x st) = 1 \<and> currentImpulse st' = Vec2 0.05 0))"
  by (auto simp: onMouseMove_def Let_def direction_zero)

section \<open>The claims at concrete inputs\<close>

lemma drag_start:
  "onMouseDown example_window (mouse_at 500 500) example_state
   = Some (example_state\<lparr>isMouseDown := True, mouseList := [Vec2 0 0]\<rparr>)"
  by (simp add: onMouseDown_def getInputPosition_def example_window_def mouse_at_def)

theorem C6_drag_scenario:
  "isMouseDown (example_state\<lparr>isMouseDown := True, mouseList := [Vec2 0 0]\<rparr>)
   \<and> getInputPosition example_window (mouse_at 550 500) = Some (Vec2 0.1 0)
   \<and> currentImpulse (the (onMouseMove example_window (mouse_at 550 500)
        (example_state\<lparr>isMouseDown := True, mouseList := [Vec2 0 0]\<rparr>))) = Vec2 0.05 0"
proof -
  have p: "getInputPosition example_window (mouse_at 550 500) = Some (Vec2 0.1 0)"
    by (simp add: getInputPosition_def example_window_def mouse_at_def)
  have d: "isMouseDown (example_state\<lparr>isMouseDown := True, mouseList := [Vec2 0 0]\<rparr>)"
    by simp
  show ?thesis
    using p d C6_drag_move [of "example_state\<lparr>isMouseDown := True, mouseList := [Vec2 0 0]\<rparr>"
        example_window "mouse_at 550 500" "0.1" 0]
    by (auto simp: example_state_eq)
qed

lemma dragged_state_eq:
  "dragged_state = example_state\<lparr>isMouseDown := True, mouseList := [Vec2 0 0, Vec2 0.1 0],
                                 currentImpulse := Vec2 0.05 0\<rparr>"
  unfolding dragged_state_def drag_start
  by (simp add: onMouseMove_def getInputPosition_def example_window_def mouse_at_def
      direction_zero example_state_eq Let_def)

theorem C4_two_idle_frames:
  "\<not> shouldReset (data dragged_state) \<and> \<not> shouldUpdate (data dragged_state)
   \<and> mesh dragged_state \<noteq> None
   \<and> fst (frames example_env [0, 1] dragged_state) = None
   \<and> currentImpulse (snd (frames example_env [0, 1] dragged_state)) = Vec2 0.0405 0
   \<and> currentImpulse (snd (frames example_env [0, 1] dragged_state)) \<noteq> Vec2 0 0"
  using C4_impulse_decay [of dragged_state example_env "[0, 1]"]
  by (simp add: dragged_state_eq example_state_eq power2_eq_square)

lemma slider_Detail_12: "slider 1 50 (1 / 100) 12 = 12"
proof -
  have "\<lfloor>(1200::real) + 1 / 2\<rfloor> = 1200" by linarith
  then show ?thesis by (simp add: slider_def Let_def)
qed

lemma createDefaults_regenerate:
  "createDefaults example_env (gui_Regenerate example_state)
   = (gui_Regenerate example_state)
       \<lparr>data := \<lparr>shouldUpdate = False, shouldReset = True,
                 palette = Some [''#69d2e7'', ''#a7dbd8'', ''#e0e4cc'', ''#f38630'', ''#fa6900''],
                 spikeLength = 1.32, spikeDetail = 16.81\<rparr>,
        random := \<lparr>currentRandom = Seeded 729251, drawn = 5\<rparr>\<rparr>"
  by (simp add: createDefaults_def gui_Regenerate_def example_state_eq example_env_def
      random_pick_def random_range_def random_value_def random_setSeed_def
      spikeSeeds_def spikeLengthSeeds_def colorSeeds_def Let_def)

theorem C9_slider_and_regenerate_frames:
  "shouldUpdate (data (gui_Detail 12 example_state))
   \<and> \<not> shouldReset (data (gui_Detail 12 example_state))
   \<and> palette (data (gui_Detail 12 example_state))
       = Some [''#69d2e7'', ''#a7dbd8'', ''#e0e4cc'', ''#f38630'', ''#fa6900'']
   \<and> mesh (snd (render example_env 1 (gui_Detail 12 example_state)))
       = Some \<lparr>u_time = 1, u_colorA = Vec3 0 0 0, u_colorB = Vec3 0 0 0, u_impulse = Vec2 0 0,
               u_spikeCount = 12, u_spikeLength = 1.32, u_sceneRotationY = 0.003\<rparr>
   \<and> spikeDetail (data (snd (render example_env 1 (gui_Detail 12 example_state)))) = 12
   \<and> random (snd (render example_env 1 (gui_Detail 12 example_state)))
       = \<lparr>currentRandom = Seeded 729251, drawn = 3\<rparr>
   \<and> shouldReset (data (gui_Regenerate example_state))
   \<and> palette (data (createDefaults example_env (gui_Regenerate example_state)))
       = Some [''#69d2e7'', ''#a7dbd8'', ''#e0e4cc'', ''#f38630'', ''#fa6900'']
   \<and> spikeDetail (data example_state) = 5.215
   \<and> spikeDetail (data (snd (render example_env 2 (gui_Regenerate example_state)))) = 16.81
   \<and> random (snd (render example_env 2 (gui_Regenerate example_state)))
       = \<lparr>currentRandom = Seeded 729251, drawn = 5\<rparr>
   \<and> fst (render example_env 2 (gui_Regenerate example_state)) = None
   \<and> u_spikeCount (the (mesh (snd (render example_env 2 (gui_Regenerate example_state)))))
       = 16.81"
proof -
  have a: "shouldUpdate (data (gui_Detail 12 example_state))
     \<and> \<not> shouldReset (data (gui_Detail 12 example_state))
     \<and> palette (data (gui_Detail 12 example_state))
         = Some [''#69d2e7'', ''#a7dbd8'', ''#e0e4cc'', ''#f38630'', ''#fa6900'']
     \<and> spikeDetail (data (gui_Detail 12 example_state)) = 12
     \<and> spikeLength (data (gui_Detail 12 example_state)) = 1.32
     \<and> random (gui_Detail 12 example_state) = \<lparr>currentRandom = Seeded 729251, drawn = 3\<rparr>
     \<and> currentImpulse (snd (render example_env 1 (gui_Detail 12 example_state))) = Vec2 0 0
     \<and> rotation_y (snd (render example_env 1 (gui_Detail 12 example_state))) = 0.003"
    by (simp add: gui_Detail_def slider_Detail_12 example_state_eq
        render_def createMesh_def advance_def Let_def)
  have b: "shouldReset (data (gui_Regenerate example_state))
     \<and> palette (data (createDefaults example_env (gui_Regenerate example_state)))
         = Some [''#69d2e7'', ''#a7dbd8'', ''#e0e4cc'', ''#f38630'', ''#fa6900'']
     \<and> spikeDetail (data (createDefaults example_env (gui_Regenerate example_state))) = 16.81
     \<and> random (createDefaults example_env (gui_Regenerate example_state))
         = \<lparr>currentRandom = Seeded 729251, drawn = 5\<rparr>"
    unfolding createDefaults_regenerate by (simp add: gui_Regenerate_def)
  have c: "spikeDetail (data example_state) = 5.215"
    by (simp add: example_state_eq)
  have d: "Color example_env (index [''#69d2e7'', ''#a7dbd8'', ''#e0e4cc'', ''#f38630'', ''#fa6900''] 0)
             = Vec3 0 0 0
     \<and> Color example_env (index [''#69d2e7'', ''#a7dbd8'', ''#e0e4cc'', ''#f38630'', ''#fa6900''] 3)
             = Vec3 0 0 0"
    by (simp add: index_def example_env_def)
  show ?thesis
    using a b c d
      C9_rebuild_triggers [of "gui_Detail 12 example_state"
        "[''#69d2e7'', ''#a7dbd8'', ''#e0e4cc'', ''#f38630'', ''#fa6900'']" example_env 1]
      C9_rebuild_triggers [of "gui_Regenerate example_state" _ example_env 2
        "[''#69d2e7'', ''#a7dbd8'', ''#e0e4cc'', ''#f38630'', ''#fa6900'']"]
    by simp
qed

end
